theory Spec2Isabelle
  imports Main
begin

section \<open>The commitlint configuration literal\<close>

text \<open>
  The repository is one file, \<^verbatim>\<open>commitlint.config.js\<close>, whose only statement assigns an
  object literal to \<^verbatim>\<open>module.exports\<close>. The literal is built from numbers, strings,
  arrays and objects, so the values of the model are exactly these four shapes. The numeric
  literals of the file are the integers 2 and 50; they are kept as \<^typ>\<open>int\<close>. An object
  keeps its properties in the order the literal writes them, as a list of pairs.
\<close>

datatype jsval =
    JNum int
  | JStr string
  | JArr "jsval list"
  | JObj "(string \<times> jsval) list"

subsection \<open>Reading values\<close>

text \<open>
  Property access \<^verbatim>\<open>o[k]\<close> and element access \<^verbatim>\<open>a[i]\<close>. Where JavaScript
  yields \<^verbatim>\<open>undefined\<close> (no such property, index out of range, or a receiver of
  another shape) the model yields \<^const>\<open>None\<close>.
\<close>

fun get_prop :: "jsval \<Rightarrow> string \<Rightarrow> jsval option" where
  "get_prop (JObj ps) k = map_of ps k"
| "get_prop (JNum n) k = None"
| "get_prop (JStr s) k = None"
| "get_prop (JArr xs) k = None"

fun get_index :: "jsval \<Rightarrow> nat \<Rightarrow> jsval option" where
  "get_index (JArr xs) i = (if i < length xs then Some (xs ! i) else None)"
| "get_index (JNum n) i = None"
| "get_index (JStr s) i = None"
| "get_index (JObj ps) i = None"

fun keys_of :: "jsval \<Rightarrow> string list option" where
  "keys_of (JObj ps) = Some (map fst ps)"
| "keys_of (JNum n) = None"
| "keys_of (JStr s) = None"
| "keys_of (JArr xs) = None"

fun string_of :: "jsval \<Rightarrow> string option" where
  "string_of (JStr s) = Some s"
| "string_of (JNum n) = None"
| "string_of (JArr xs) = None"
| "string_of (JObj ps) = None"

text \<open>An array all of whose elements are strings, read as the list of those strings.\<close>

fun strings_of :: "jsval \<Rightarrow> string list option" where
  "strings_of (JArr xs) = those (map string_of xs)"
| "strings_of (JNum n) = None"
| "strings_of (JStr s) = None"
| "strings_of (JObj ps) = None"

subsection \<open>The exported object\<close>

text \<open>The right-hand side of \<^verbatim>\<open>module.exports = { ... }\<close>, property by property.\<close>

definition module_exports :: jsval where
  "module_exports = JObj
     [(''extends'', JArr [JStr ''@commitlint/config-conventional'']),
      (''rules'', JObj
        [(''type-enum'', JArr [JNum 2, JStr ''always'', JArr
            [JStr ''feat'', JStr ''fix'', JStr ''docs'', JStr ''style'',
             JStr ''refactor'', JStr ''test'', JStr ''chore'']]),
         (''subject-case'', JArr [JNum 2, JStr ''always'', JStr ''lower-case'']),
         (''subject-max-length'', JArr [JNum 2, JStr ''always'', JNum 50])])]"

text \<open>\<^verbatim>\<open>module.exports.extends\<close>, \<^verbatim>\<open>module.exports.rules\<close> and
  \<^verbatim>\<open>module.exports.rules[name]\<close>.\<close>

definition extends_field :: "jsval option" where
  "extends_field = get_prop module_exports ''extends''"

definition rules_field :: "jsval option" where
  "rules_field = get_prop module_exports ''rules''"

definition rule :: "string \<Rightarrow> jsval option" where
  "rule name = Option.bind rules_field (\<lambda>r. get_prop r name)"

text \<open>The third component \<^verbatim>\<open>rules[name][2]\<close> of a rule, its parameter.\<close>

definition rule_param :: "string \<Rightarrow> jsval option" where
  "rule_param name = Option.bind (rule name) (\<lambda>t. get_index t 2)"

definition type_enum_tokens :: "string list option" where
  "type_enum_tokens = Option.bind (rule_param ''type-enum'') strings_of"

subsection \<open>Shapes of rule values\<close>

text \<open>
  A rule value is a triple when it is an array of exactly three elements; its severity is
  the first element when that is a number. The severity levels of the linter are
  0 (off), 1 (warning) and 2 (error).
\<close>

fun is_triple :: "jsval \<Rightarrow> bool" where
  "is_triple (JArr xs) = (length xs = 3)"
| "is_triple (JNum n) = False"
| "is_triple (JStr s) = False"
| "is_triple (JObj ps) = False"

fun severity_of :: "jsval \<Rightarrow> int option" where
  "severity_of (JArr (JNum n # xs)) = Some n"
| "severity_of (JArr (JStr s # xs)) = None"
| "severity_of (JArr (JArr ys # xs)) = None"
| "severity_of (JArr (JObj ps # xs)) = None"
| "severity_of (JArr []) = None"
| "severity_of (JNum n) = None"
| "severity_of (JStr s) = None"
| "severity_of (JObj ps) = None"

definition severity_levels :: "int set" where
  "severity_levels = {0, 1, 2}"

text \<open>A lowercase letter is a character with code 97 (a) to 122 (z).\<close>

definition is_lower :: "char \<Rightarrow> bool" where
  "is_lower c = (97 \<le> (of_char c :: nat) \<and> (of_char c :: nat) \<le> 122)"

definition lowercase_token :: "string \<Rightarrow> bool" where
  "lowercase_token t = (t \<noteq> [] \<and> list_all is_lower t)"

subsection \<open>Loading the module\<close>

text \<open>
  Assignment \<^verbatim>\<open>o[k] = v\<close> on the property list of an object: an existing property
  keeps its place and takes the new value, a new property goes to the end.
\<close>

fun set_prop :: "(string \<times> jsval) list \<Rightarrow> string \<Rightarrow> jsval \<Rightarrow> (string \<times> jsval) list" where
  "set_prop [] k v = [(k, v)]"
| "set_prop ((k', v') # ps) k v =
     (if k' = k then (k, v) # ps else (k', v') # set_prop ps k v)"

text \<open>
  Running the file is its one statement, the assignment to \<^verbatim>\<open>module.exports\<close>, on
  the module object the loader hands in (given by its property list). A load runs the file
  and reads \<^verbatim>\<open>module.exports\<close> back.
\<close>

definition run_module :: "(string \<times> jsval) list \<Rightarrow> (string \<times> jsval) list" where
  "run_module m = set_prop m ''exports'' module_exports"

definition load :: "(string \<times> jsval) list \<Rightarrow> jsval option" where
  "load m = map_of (run_module m) ''exports''"

section \<open>Properties\<close>

subsection \<open>Auxiliary facts\<close>

lemma rules_field_eq:
  "rules_field = Some (JObj
        [(''type-enum'', JArr [JNum 2, JStr ''always'', JArr
            [JStr ''feat'', JStr ''fix'', JStr ''docs'', JStr ''style'',
             JStr ''refactor'', JStr ''test'', JStr ''chore'']]),
         (''subject-case'', JArr [JNum 2, JStr ''always'', JStr ''lower-case'']),
         (''subject-max-length'', JArr [JNum 2, JStr ''always'', JNum 50])])"
  by (simp add: rules_field_def module_exports_def)

lemma rule_eq:
  "rule name = map_of
        [(''type-enum'', JArr [JNum 2, JStr ''always'', JArr
            [JStr ''feat'', JStr ''fix'', JStr ''docs'', JStr ''style'',
             JStr ''refactor'', JStr ''test'', JStr ''chore'']]),
         (''subject-case'', JArr [JNum 2, JStr ''always'', JStr ''lower-case'']),
         (''subject-max-length'', JArr [JNum 2, JStr ''always'', JNum 50])] name"
  unfolding rule_def rules_field_eq by simp

lemma rule_type_enum:
  "rule ''type-enum'' = Some (JArr [JNum 2, JStr ''always'', JArr
            [JStr ''feat'', JStr ''fix'', JStr ''docs'', JStr ''style'',
             JStr ''refactor'', JStr ''test'', JStr ''chore'']])"
  unfolding rule_eq by simp

lemma rule_param_type_enum:
  "rule_param ''type-enum'' = Some (JArr
            [JStr ''feat'', JStr ''fix'', JStr ''docs'', JStr ''style'',
             JStr ''refactor'', JStr ''test'', JStr ''chore''])"
  unfolding rule_param_def rule_type_enum by simp

lemma tokens_eq:
  "type_enum_tokens =
     Some [''feat'', ''fix'', ''docs'', ''style'', ''refactor'', ''test'', ''chore'']"
  unfolding type_enum_tokens_def rule_param_type_enum by simp

lemma map_of_set_prop_same: "map_of (set_prop m k v) k = Some v"
  by (induction m) auto

lemma set_prop_twice: "set_prop (set_prop m k v) k v = set_prop m k v"
  by (induction m) auto

subsection \<open>The rules\<close>

text \<open>
  C1. The rules mapping binds \<^verbatim>\<open>type-enum\<close> to a triple whose third component is a
  list of strings, and the set of those strings is exactly feat, fix, docs, style, refactor,
  test, chore: each of the seven is in the list and the list holds nothing else.
\<close>

theorem type_enum_token_set:
  "\<exists>sev app p ts. rule ''type-enum'' = Some (JArr [sev, app, p])
      \<and> rule_param ''type-enum'' = Some p
      \<and> strings_of p = Some ts
      \<and> set ts = {''feat'', ''fix'', ''docs'', ''style'', ''refactor'', ''test'', ''chore''}"
  unfolding rule_type_enum rule_param_type_enum by simp

text \<open>
  C2. The rules mapping binds \<^verbatim>\<open>subject-case\<close> to exactly the triple
  \<^verbatim>\<open>[2, 'always', 'lower-case']\<close>.
\<close>

theorem subject_case_rule:
  "rule ''subject-case'' = Some (JArr [JNum 2, JStr ''always'', JStr ''lower-case''])"
  unfolding rule_eq by simp

text \<open>
  C3. The rules mapping binds \<^verbatim>\<open>subject-max-length\<close> to exactly the triple
  \<^verbatim>\<open>[2, 'always', 50]\<close>; its parameter is the integer 50.
\<close>

theorem subject_max_length_rule:
  "rule ''subject-max-length'' = Some (JArr [JNum 2, JStr ''always'', JNum 50])
   \<and> rule_param ''subject-max-length'' = Some (JNum 50)"
  unfolding rule_param_def rule_eq by simp

text \<open>
  C4. The \<^verbatim>\<open>extends\<close> field is an array of strings with exactly one element, the
  identifier of the conventional rule set.
\<close>

theorem extends_one_identifier:
  "extends_field = Some (JArr [JStr ''@commitlint/config-conventional''])
   \<and> (\<exists>ids. Option.bind extends_field strings_of = Some ids \<and> length ids = 1)"
  by (simp add: extends_field_def module_exports_def)

text \<open>
  C5. The rules mapping has exactly three entries, \<^verbatim>\<open>type-enum\<close>,
  \<^verbatim>\<open>subject-case\<close> and \<^verbatim>\<open>subject-max-length\<close>: these are the property names of
  the object, in this order, and no other name is bound.
\<close>

theorem rules_three_entries:
  "Option.bind rules_field keys_of =
      Some [''type-enum'', ''subject-case'', ''subject-max-length'']
   \<and> dom rule = {''type-enum'', ''subject-case'', ''subject-max-length''}"
proof
  show "Option.bind rules_field keys_of =
      Some [''type-enum'', ''subject-case'', ''subject-max-length'']"
    unfolding rules_field_eq by simp
  have "dom rule = dom (map_of
        [(''type-enum'', JArr [JNum 2, JStr ''always'', JArr
            [JStr ''feat'', JStr ''fix'', JStr ''docs'', JStr ''style'',
             JStr ''refactor'', JStr ''test'', JStr ''chore'']]),
         (''subject-case'', JArr [JNum 2, JStr ''always'', JStr ''lower-case'']),
         (''subject-max-length'', JArr [JNum 2, JStr ''always'', JNum 50])])"
    by (simp add: dom_def rule_eq)
  also have "\<dots> = {''type-enum'', ''subject-case'', ''subject-max-length''}"
    unfolding dom_map_of_conv_image_fst by auto
  finally show "dom rule = {''type-enum'', ''subject-case'', ''subject-max-length''}" .
qed

text \<open>
  C6. Whatever a rule name is bound to is a triple, and the first component of the triple
  is a number among the severity levels 0, 1, 2.
\<close>

theorem rule_severity_in_levels:
  "rule name = Some v \<Longrightarrow>
     is_triple v \<and> (\<exists>s. severity_of v = Some s \<and> s \<in> severity_levels)"
  unfolding rule_eq severity_levels_def by (auto split: if_splits)

theorem rule_severity_in_levels_witness:
  "rule ''subject-case'' = Some (JArr [JNum 2, JStr ''always'', JStr ''lower-case''])
   \<and> is_triple (JArr [JNum 2, JStr ''always'', JStr ''lower-case''])
   \<and> severity_of (JArr [JNum 2, JStr ''always'', JStr ''lower-case'']) = Some 2
   \<and> (2::int) \<in> severity_levels"
proof -
  have h: "rule ''subject-case'' = Some (JArr [JNum 2, JStr ''always'', JStr ''lower-case''])"
    unfolding rule_eq by simp
  show ?thesis using h rule_severity_in_levels [OF h] by simp
qed

subsection \<open>The commit types\<close>

text \<open>
  C7. Every token of the \<^verbatim>\<open>type-enum\<close> list is a short lowercase token: it is not
  empty, all its characters are lowercase letters, and it has at most eight characters.
\<close>

theorem tokens_lowercase:
  "type_enum_tokens = Some ts \<Longrightarrow> t \<in> set ts \<Longrightarrow> lowercase_token t \<and> length t \<le> 8"
  unfolding tokens_eq lowercase_token_def is_lower_def by auto

theorem tokens_lowercase_witness:
  "type_enum_tokens =
      Some [''feat'', ''fix'', ''docs'', ''style'', ''refactor'', ''test'', ''chore'']
   \<and> ''refactor'' \<in> set [''feat'', ''fix'', ''docs'', ''style'', ''refactor'', ''test'', ''chore'']
   \<and> lowercase_token ''refactor'' \<and> length ''refactor'' \<le> 8"
proof -
  have h: "type_enum_tokens =
      Some [''feat'', ''fix'', ''docs'', ''style'', ''refactor'', ''test'', ''chore'']"
    unfolding type_enum_tokens_def rule_param_type_enum by simp
  have m: "''refactor'' \<in> set [''feat'', ''fix'', ''docs'', ''style'', ''refactor'', ''test'', ''chore'']"
    by simp
  show ?thesis using h m tokens_lowercase [OF h m] by simp
qed

text \<open>
  C9. The \<^verbatim>\<open>type-enum\<close> list has seven tokens and they are pairwise distinct.
\<close>

theorem tokens_distinct:
  "\<exists>ts. type_enum_tokens = Some ts \<and> length ts = 7 \<and> distinct ts"
  unfolding type_enum_tokens_def rule_param_type_enum by simp

text \<open>
  C10. The \<^verbatim>\<open>type-enum\<close> parameter is the ordered list feat, fix, docs, style,
  refactor, test, chore: the element at each index 0 to 6 is the token at that place.
\<close>

theorem tokens_in_order:
  "type_enum_tokens =
      Some [''feat'', ''fix'', ''docs'', ''style'', ''refactor'', ''test'', ''chore'']
   \<and> (\<exists>p. rule_param ''type-enum'' = Some p
        \<and> map (get_index p) [0, 1, 2, 3, 4, 5, 6, 7] =
            [Some (JStr ''feat''), Some (JStr ''fix''), Some (JStr ''docs''),
             Some (JStr ''style''), Some (JStr ''refactor''), Some (JStr ''test''),
             Some (JStr ''chore''), None])"
  unfolding type_enum_tokens_def rule_param_type_enum by simp

subsection \<open>Loading\<close>

text \<open>
  C8. Loading is idempotent. Whatever module object the loader starts from, a load yields
  the configuration literal, so two loads yield equal objects; loading again on the module
  object a first run left behind yields the same object, and the second run leaves that
  module object as it was.
\<close>

theorem load_idempotent:
  "load m = Some module_exports
   \<and> load m = load m'
   \<and> load (run_module m) = load m
   \<and> run_module (run_module m) = run_module m"
  unfolding load_def run_module_def by (simp add: map_of_set_prop_same set_prop_twice)

end
